theory Spec2Isabelle
  imports Complex_Main
begin

section \<open>The banking error classifier (exception\_handler.py)\<close>

text \<open>
  The module classifies a failure caught around a call to the banking provider. The class
  \<open>ExceptionHandler\<close> runs \<open>handle_error\<close> from its constructor; \<open>handle_error\<close> is a
  chain of steps, each of which may write a log entry, store a message on the bank account
  and raise. The embedding below keeps the functions and their order as the source has
  them. Calls into the framework (logging, database, \<open>frappe.throw\<close>) are recorded as a
  list of events in the order they happen; every exception of the source, also those of
  the Python runtime, is an outcome of the model.
\<close>

subsection \<open>Values read from the response body\<close>

text \<open>
  What \<open>response.json()\<close> returns: \<open>None\<close>, booleans, integers, floats, strings, lists
  and dictionaries. A dictionary is kept as the list of its items. A float is given by its
  (finite) value; only the test against zero is ever made on it.
\<close>

datatype jvalue =
    JNull
  | JBool bool
  | JInt int
  | JFloat real
  | JStr string
  | JArr "jvalue list"
  | JObj "(string \<times> jvalue) list"

subsection \<open>Responses, failures and the handler object\<close>

text \<open>
  A response of the HTTP library: \<open>json\<close> is what \<open>response.json()\<close> returns, \<open>None\<close> when
  the body does not parse (the call raises); \<open>content\<close> is the raw body.
\<close>

record response =
  status_code :: int
  headers :: "string \<rightharpoonup> string"
  content :: string
  json :: "jvalue option"

text \<open>
  The failure handed to the classifier: an \<open>HTTPError\<close> with its attribute \<open>response\<close>,
  which is \<open>None\<close> when the error was built without a response, or any other exception
  (named by a label).
\<close>

datatype failure =
    HTTPError "response option"
  | OtherException string

text \<open>The fields of \<open>ExceptionHandler\<close>; \<open>account\<close> is \<open>None\<close> by default.\<close>

record exception_handler =
  exception :: failure
  account :: "string option"

text \<open>
  What the classifier reads from the Python runtime: the exception being handled by the
  enclosing \<open>except\<close> clause (the one a bare \<open>raise\<close> re-raises), and the text that
  \<open>str\<close> gives for a value that is not a string (used when an f-string formats it).
\<close>

record runtime =
  handled :: "failure option"
  py_str :: "jvalue \<Rightarrow> string"

subsection \<open>Effects and outcomes\<close>

datatype log_message =
    Content string
  | Traceback "failure option"
  | Dumps jvalue

text \<open>
  \<open>LogError title message\<close> is \<open>frappe.log_error\<close>, \<open>SetValue doctype name field value\<close>
  is \<open>frappe.db.set_value\<close>, \<open>Commit\<close> is \<open>frappe.db.commit\<close> and \<open>Throw title msg\<close> is the
  call of \<open>frappe.throw\<close> with \<open>exc=BankingError\<close>.
\<close>

datatype event =
    LogError string log_message
  | SetValue string string string jvalue
  | Commit
  | Throw string jvalue

datatype raised =
    BankingError jvalue
  | Reraised failure
  | RuntimeError
  | AttributeError
  | TypeError
  | JSONDecodeError

type_synonym 'a result = "event list \<times> (raised + 'a)"

definition returns :: "'a \<Rightarrow> 'a result" where
  "returns x = ([], Inr x)"

definition raises :: "raised \<Rightarrow> 'a result" where
  "raises e = ([], Inl e)"

definition emit :: "event \<Rightarrow> unit result" where
  "emit ev = ([ev], Inr ())"

text \<open>
  Sequencing of two statements: when the first raises, the second is not run, and the
  events of the first are all that happened.
\<close>

definition and_then :: "'a result \<Rightarrow> ('a \<Rightarrow> 'b result) \<Rightarrow> 'b result" where
  "and_then m f =
     (case m of
        (evs, Inl e) \<Rightarrow> (evs, Inl e)
      | (evs, Inr x) \<Rightarrow> (case f x of (evs', out) \<Rightarrow> (evs @ evs', out)))"

text \<open>An expression that has no effect but may raise.\<close>

definition evaluate :: "raised + 'a \<Rightarrow> 'a result" where
  "evaluate v = ([], v)"

subsection \<open>Python operations on the values\<close>

fun py_truthy :: "jvalue \<Rightarrow> bool" where
  "py_truthy JNull = False"
| "py_truthy (JBool b) = b"
| "py_truthy (JInt i) = (i \<noteq> 0)"
| "py_truthy (JFloat x) = (x \<noteq> 0)"
| "py_truthy (JStr s) = (s \<noteq> [])"
| "py_truthy (JArr xs) = (xs \<noteq> [])"
| "py_truthy (JObj kvs) = (kvs \<noteq> [])"

text \<open>\<open>v.get(k, d)\<close>: only a dictionary has the method.\<close>

fun py_get :: "jvalue \<Rightarrow> string \<Rightarrow> jvalue \<Rightarrow> raised + jvalue" where
  "py_get (JObj kvs) k d = Inr (case map_of kvs k of Some v \<Rightarrow> v | None \<Rightarrow> d)"
| "py_get _ k d = Inl AttributeError"

text \<open>\<open>sub in s\<close> on strings.\<close>

fun substring :: "string \<Rightarrow> string \<Rightarrow> bool" where
  "substring sub [] = (sub = [])"
| "substring sub (c # cs) = (take (length sub) (c # cs) = sub \<or> substring sub cs)"

text \<open>\<open>k in v\<close> for a string \<open>k\<close>.\<close>

fun py_in :: "string \<Rightarrow> jvalue \<Rightarrow> raised + bool" where
  "py_in k (JObj kvs) = Inr (k \<in> set (map fst kvs))"
| "py_in k (JArr xs) = Inr (JStr k \<in> set xs)"
| "py_in k (JStr s) = Inr (substring k s)"
| "py_in k _ = Inl TypeError"

text \<open>The elements a \<open>for\<close> loop over the value visits.\<close>

fun py_iter :: "jvalue \<Rightarrow> raised + jvalue list" where
  "py_iter (JArr xs) = Inr xs"
| "py_iter (JStr s) = Inr (map (\<lambda>c. JStr [c]) s)"
| "py_iter (JObj kvs) = Inr (map (\<lambda>kv. JStr (fst kv)) kvs)"
| "py_iter _ = Inl TypeError"

text \<open>\<open>v += s\<close> for a string \<open>s\<close>: concatenation on a string, \<open>extend\<close> on a list.\<close>

fun py_iadd :: "jvalue \<Rightarrow> string \<Rightarrow> raised + jvalue" where
  "py_iadd (JStr m) s = Inr (JStr (m @ s))"
| "py_iadd (JArr xs) s = Inr (JArr (xs @ map (\<lambda>c. JStr [c]) s))"
| "py_iadd _ s = Inl TypeError"

text \<open>A value formatted inside an f-string.\<close>

definition format_value :: "runtime \<Rightarrow> jvalue \<Rightarrow> string" where
  "format_value rt v = (case v of JStr s \<Rightarrow> s | _ \<Rightarrow> py_str rt v)"

text \<open>\<open>sep.join(xs)\<close>.\<close>

fun join :: "string \<Rightarrow> string list \<Rightarrow> string" where
  "join sep [] = []"
| "join sep [x] = x"
| "join sep (x # y # ys) = x @ sep @ join sep (y # ys)"

text \<open>A list comprehension whose body may raise: the first failure ends it.\<close>

fun map_raising :: "('a \<Rightarrow> raised + 'b) \<Rightarrow> 'a list \<Rightarrow> raised + 'b list" where
  "map_raising f [] = Inr []"
| "map_raising f (x # xs) =
     (case f x of
        Inl e \<Rightarrow> Inl e
      | Inr y \<Rightarrow> (case map_raising f xs of Inl e \<Rightarrow> Inl e | Inr ys \<Rightarrow> Inr (y # ys)))"

subsection \<open>Framework helpers\<close>

text \<open>
  \<open>frappe._\<close> looks a text up in the translations of the session's language; the model is
  that of the source language, where the text comes back as written.
\<close>

definition translate :: "string \<Rightarrow> string" where
  "translate s = s"

text \<open>\<open>frappe.bold\<close>.\<close>

definition bold :: "string \<Rightarrow> string" where
  "bold s = ''<strong>'' @ s @ ''</strong>''"

text \<open>\<open>template.format(arg)\<close> for a template whose only fields are \<open>{0}\<close>.\<close>

fun format0 :: "string \<Rightarrow> string \<Rightarrow> string" where
  "format0 [] arg = []"
| "format0 (c # cs) arg =
     (if take 3 (c # cs) = ''{0}'' then arg @ format0 (drop 2 cs) arg
      else c # format0 cs arg)"

text \<open>\<open>frappe.throw(title=..., msg=..., exc=BankingError)\<close>.\<close>

definition throw :: "string \<Rightarrow> jvalue \<Rightarrow> 'a result" where
  "throw title msg = ([Throw title msg], Inl (BankingError msg))"

definition log_error :: "string \<Rightarrow> log_message \<Rightarrow> unit result" where
  "log_error title message = emit (LogError title message)"

subsection \<open>The methods of ExceptionHandler\<close>

definition set_in_account :: "exception_handler \<Rightarrow> jvalue \<Rightarrow> unit result" where
  "set_in_account self error =
     (case account self of
        None \<Rightarrow> returns ()
      | Some a \<Rightarrow>
          if a = [] then returns ()
          else and_then (emit (SetValue ''Bank Account'' a ''error_message'' error))
                 (\<lambda>_. emit Commit))"

definition get_msg :: "jvalue \<Rightarrow> raised + jvalue" where
  "get_msg error =
     (case py_get error ''message'' JNull of
        Inl e \<Rightarrow> Inl e
      | Inr msg \<Rightarrow>
          (case py_get error ''code'' JNull of
             Inl e \<Rightarrow> Inl e
           | Inr code \<Rightarrow>
               if code = JStr ''CONSENT.RESOURCE_NOT_GRANTED''
               then py_iadd msg
                      ('' '' @ format0 (translate ''Please go to Banking Settings and click on {0}.'')
                                (bold (translate ''Link Bank and Accounts'')))
               else Inr msg))"

definition handle_auth_error :: "exception_handler \<Rightarrow> response \<Rightarrow> unit result" where
  "handle_auth_error self response =
     (if \<not> status_code response = 401 then returns ()
      else and_then (log_error (translate ''Banking Error'') (Content (content response)))
        (\<lambda>_. let message = JStr (translate ''Authentication error due to invalid credentials.'')
              in and_then (set_in_account self message)
                   (\<lambda>_. throw (translate ''Banking Error'') message)))"

definition handle_authorization_error :: "exception_handler \<Rightarrow> response \<Rightarrow> unit result" where
  "handle_authorization_error self response =
     (if \<not> status_code response = 403 then returns ()
      else and_then (log_error (translate ''Banking Error'') (Content (content response)))
        (\<lambda>_. and_then (evaluate (case json response of None \<Rightarrow> Inl JSONDecodeError | Some body \<Rightarrow> Inr body))
        (\<lambda>body. and_then (evaluate (py_get body ''message'' (JObj [])))
        (\<lambda>content. let message = (case content of
                                      JStr s \<Rightarrow> s
                                    | _ \<Rightarrow> ''Authorization error due to invalid access.'')
                    in and_then (set_in_account self (JStr message))
                         (\<lambda>_. throw (translate ''Banking Error'') (JStr (translate message)))))))"

definition handle_txt_html_error :: "exception_handler \<Rightarrow> response \<Rightarrow> unit result" where
  "handle_txt_html_error self response =
     (if substring ''application/json''
           (case headers response ''Content-Type'' of Some v \<Rightarrow> v | None \<Rightarrow> '''')
      then returns ()
      else and_then (log_error (translate ''Banking Error'') (Content (content response)))
        (\<lambda>_. let message = JStr (translate ''Something went wrong. Please retry in a while.'')
              in and_then (set_in_account self message)
                   (\<lambda>_. throw (translate ''Banking Error'') message)))"

definition handle_frappe_server_error ::
  "exception_handler \<Rightarrow> jvalue \<Rightarrow> response \<Rightarrow> unit result" where
  "handle_frappe_server_error self content' response =
     and_then (evaluate (case json response of None \<Rightarrow> Inl JSONDecodeError | Some body \<Rightarrow> Inr body))
       (\<lambda>response_data.
          and_then (evaluate (if py_truthy content' then Inr False
                              else py_in ''exc_type'' response_data))
          (\<lambda>errored.
             if errored
             then and_then (log_error (translate ''Banking Error'') (Content (content response)))
               (\<lambda>_. and_then (evaluate (py_get response_data ''exception'' JNull))
               (\<lambda>exc. let message = (if py_truthy exc then exc
                                      else JStr (translate ''The server has errored. Please retry in some time.''))
                       in and_then (set_in_account self message)
                            (\<lambda>_. throw (translate ''Banking Error'') message)))
             else returns ()))"

text \<open>One entry of the list comprehension in \<open>handle_admin_error\<close>.\<close>

definition error_line :: "runtime \<Rightarrow> jvalue \<Rightarrow> raised + string" where
  "error_line rt err =
     (case py_get err ''location'' JNull of
        Inl e \<Rightarrow> Inl e
      | Inr location \<Rightarrow>
          (case get_msg err of
             Inl e \<Rightarrow> Inl e
           | Inr msg \<Rightarrow> Inr (format_value rt location @ '' - '' @ format_value rt msg)))"

text \<open>
  \<open>handle_admin_error\<close> in three parts: \<open>error_data_of\<close> is the expression of its first
  line, \<open>content.get("error", {}) or content.get("data", {})\<close>, and \<open>raise_admin_error\<close>
  is its body from \<open>errors = error_data.get("errors")\<close> on, as a function of \<open>error_data\<close>.
\<close>

definition error_data_of :: "jvalue \<Rightarrow> raised + jvalue" where
  "error_data_of content' =
     (case py_get content' ''error'' (JObj []) of
        Inl e \<Rightarrow> Inl e
      | Inr err \<Rightarrow> if py_truthy err then Inr err else py_get content' ''data'' (JObj []))"

definition raise_admin_error :: "runtime \<Rightarrow> exception_handler \<Rightarrow> jvalue \<Rightarrow> unit result" where
  "raise_admin_error rt self error_data =
     and_then (evaluate (py_get error_data ''errors'' JNull))
       (\<lambda>errors.
          if py_truthy errors
          then and_then (evaluate (case py_iter errors of
                                     Inl e \<Rightarrow> Inl e
                                   | Inr errs \<Rightarrow> map_raising (error_line rt) errs))
            (\<lambda>error_list.
               let message = JStr (translate ''Banking Action has failed due to the following error(s):''
                                   @ ''<br><ul><li>'' @ join ''</li><li>'' error_list @ ''</li></ul>'')
               in and_then (set_in_account self message)
                    (\<lambda>_. throw (translate ''Banking Error'') message))
          else and_then (evaluate (py_get error_data ''message'' JNull))
            (\<lambda>m. if py_truthy m
                  then and_then (evaluate (get_msg error_data))
                    (\<lambda>message. and_then (set_in_account self message)
                       (\<lambda>_. throw (translate ''Banking Error'') message))
                  else returns ()))"

definition handle_admin_error :: "runtime \<Rightarrow> exception_handler \<Rightarrow> jvalue \<Rightarrow> unit result" where
  "handle_admin_error rt self content' =
     and_then (evaluate (error_data_of content'))
       (\<lambda>error_data.
          and_then (log_error (translate ''Banking Error'') (Dumps error_data))
            (\<lambda>_. raise_admin_error rt self error_data))"

text \<open>A bare \<open>raise\<close>: re-raises the exception being handled, if there is one.\<close>

definition reraise :: "runtime \<Rightarrow> 'a result" where
  "reraise rt = (case handled rt of None \<Rightarrow> raises RuntimeError | Some e \<Rightarrow> raises (Reraised e))"

text \<open>
  In \<open>handle_error\<close>, \<open>response = self.exception.response\<close> may be \<open>None\<close>. The steps are
  written for a response that is there; on \<open>None\<close> the first read of an attribute of it,
  \<open>response.status_code\<close> at the start of \<open>handle_auth_error\<close>, raises \<open>AttributeError\<close>
  before anything else happens.
\<close>

definition handle_error :: "runtime \<Rightarrow> exception_handler \<Rightarrow> unit result" where
  "handle_error rt self =
     (case exception self of
        OtherException name \<Rightarrow>
          and_then (set_in_account self (JStr (translate ''Something went wrong. Please retry in a while.'')))
            (\<lambda>_. and_then (log_error (translate ''Banking Error'') (Traceback (handled rt)))
            (\<lambda>_. reraise rt))
      | HTTPError response' \<Rightarrow>
          and_then (evaluate (case response' of
                                None \<Rightarrow> Inl AttributeError
                              | Some response \<Rightarrow> Inr response))
            (\<lambda>response. and_then (handle_auth_error self response)
            (\<lambda>_. and_then (handle_authorization_error self response)
            (\<lambda>_. and_then (handle_txt_html_error self response)
            (\<lambda>_. and_then (evaluate (case json response of None \<Rightarrow> Inl JSONDecodeError | Some body \<Rightarrow> Inr body))
            (\<lambda>body. and_then (evaluate (py_get body ''message'' (JObj [])))
            (\<lambda>content'. and_then (handle_frappe_server_error self content' response)
            (\<lambda>_. handle_admin_error rt self content'))))))))"

subsection \<open>Names for the fixed texts\<close>

text \<open>
  The texts that the source writes out where it uses them, named here so that the
  statements below can refer to them.
\<close>

definition title :: string where
  "title = ''Banking Error''"

definition retry_message :: string where
  "retry_message = ''Something went wrong. Please retry in a while.''"

definition credentials_message :: string where
  "credentials_message = ''Authentication error due to invalid credentials.''"

definition access_message :: string where
  "access_message = ''Authorization error due to invalid access.''"

definition server_message :: string where
  "server_message = ''The server has errored. Please retry in some time.''"

definition lead_in :: string where
  "lead_in = ''Banking Action has failed due to the following error(s):''"

definition consent_code :: string where
  "consent_code = ''CONSENT.RESOURCE_NOT_GRANTED''"

definition instruction :: string where
  "instruction = ''Please go to Banking Settings and click on <strong>Link Bank and Accounts</strong>.''"

text \<open>The HTML list that \<open>handle_admin_error\<close> builds from its lines.\<close>

definition html_list :: "string list \<Rightarrow> string" where
  "html_list items = ''<br><ul><li>'' @ join ''</li><li>'' items @ ''</li></ul>''"

text \<open>The events that are calls of \<open>frappe.throw\<close>.\<close>

fun is_throw :: "event \<Rightarrow> bool" where
  "is_throw (Throw t m) = True"
| "is_throw _ = False"

text \<open>The events that write to the account, and the order of two kinds of event in a run.\<close>

fun is_persist :: "event \<Rightarrow> bool" where
  "is_persist (SetValue doctype name field v) = True"
| "is_persist _ = False"

fun is_log :: "event \<Rightarrow> bool" where
  "is_log (LogError t m) = True"
| "is_log _ = False"

text \<open>\<open>occurs_before P Q evs\<close>: some event of kind \<open>P\<close> is followed, later, by one of kind \<open>Q\<close>.\<close>

fun occurs_before :: "(event \<Rightarrow> bool) \<Rightarrow> (event \<Rightarrow> bool) \<Rightarrow> event list \<Rightarrow> bool" where
  "occurs_before P Q [] = False"
| "occurs_before P Q (ev # evs) = ((P ev \<and> list_ex Q evs) \<or> occurs_before P Q evs)"

section \<open>Lemmas about the model\<close>

subsection \<open>Chaining\<close>

lemma and_then_raised: "and_then (evs, Inl e) f = (evs, Inl e)"
  by (simp add: and_then_def)

lemma and_then_returned: "and_then (evs, Inr x) f = (evs @ fst (f x), snd (f x))"
  by (simp add: and_then_def split: prod.splits)

lemma and_then_returns: "and_then (returns x) f = f x"
  by (simp add: and_then_def returns_def split: prod.splits)

lemma and_then_evaluate:
  "and_then (evaluate v) f = (case v of Inl e \<Rightarrow> ([], Inl e) | Inr x \<Rightarrow> f x)"
  by (simp add: and_then_def evaluate_def split: prod.splits sum.splits)

lemma and_then_log_error:
  "and_then (log_error t m) f = (LogError t m # fst (f ()), snd (f ()))"
  by (simp add: and_then_def log_error_def emit_def split: prod.splits)

lemma snd_set_in_account: "snd (set_in_account self m) = Inr ()"
  by (simp add: set_in_account_def and_then_def returns_def emit_def split: option.splits)

lemma and_then_set_in_account:
  "and_then (set_in_account self m) f = (fst (set_in_account self m) @ fst (f ()), snd (f ()))"
proof -
  have "set_in_account self m = (fst (set_in_account self m), Inr ())"
    by (metis prod.collapse snd_set_in_account)
  then show ?thesis
    by (metis and_then_returned)
qed

lemma persisting:
  "and_then (set_in_account self m) (\<lambda>_. throw t m)
     = (fst (set_in_account self m) @ [Throw t m], Inl (BankingError m))"
  by (simp add: and_then_set_in_account throw_def)

lemma set_in_account_supplied:
  "account self = Some a \<Longrightarrow> a \<noteq> [] \<Longrightarrow>
   fst (set_in_account self m) = [SetValue ''Bank Account'' a ''error_message'' m, Commit]"
  by (simp add: set_in_account_def and_then_def emit_def)

lemma set_in_account_absent:
  "account self = None \<or> account self = Some [] \<Longrightarrow> fst (set_in_account self m) = []"
  by (auto simp add: set_in_account_def returns_def)

lemma set_in_account_no_throw: "e \<in> set (fst (set_in_account self m)) \<Longrightarrow> \<not> is_throw e"
  by (auto simp add: set_in_account_def and_then_def returns_def emit_def split: option.splits if_splits)

subsection \<open>The steps in closed form\<close>

lemma handle_auth_error_eq:
  "handle_auth_error self r =
     (if status_code r = 401
      then (LogError title (Content (content r))
              # fst (set_in_account self (JStr credentials_message))
              @ [Throw title (JStr credentials_message)],
            Inl (BankingError (JStr credentials_message)))
      else ([], Inr ()))"
  unfolding handle_auth_error_def translate_def Let_def persisting and_then_log_error
    title_def [symmetric] credentials_message_def [symmetric]
  by (simp add: returns_def)

lemma handle_txt_html_error_eq:
  "handle_txt_html_error self r =
     (if substring ''application/json'' (case headers r ''Content-Type'' of Some v \<Rightarrow> v | None \<Rightarrow> [])
      then ([], Inr ())
      else (LogError title (Content (content r))
              # fst (set_in_account self (JStr retry_message))
              @ [Throw title (JStr retry_message)],
            Inl (BankingError (JStr retry_message))))"
  unfolding handle_txt_html_error_def translate_def Let_def persisting and_then_log_error
    title_def [symmetric] retry_message_def [symmetric]
  by (simp add: returns_def)

lemma handle_authorization_error_eq:
  "handle_authorization_error self r =
     (if status_code r = 403
      then (case json r of
              None \<Rightarrow> ([LogError title (Content (content r))], Inl JSONDecodeError)
            | Some body \<Rightarrow>
                (case py_get body ''message'' (JObj []) of
                   Inl e \<Rightarrow> ([LogError title (Content (content r))], Inl e)
                 | Inr c \<Rightarrow>
                     (LogError title (Content (content r))
                        # fst (set_in_account self (JStr (case c of JStr s \<Rightarrow> s | _ \<Rightarrow> access_message)))
                        @ [Throw title (JStr (case c of JStr s \<Rightarrow> s | _ \<Rightarrow> access_message))],
                      Inl (BankingError (JStr (case c of JStr s \<Rightarrow> s | _ \<Rightarrow> access_message))))))
      else ([], Inr ()))"
  unfolding handle_authorization_error_def translate_def Let_def persisting and_then_log_error
    and_then_evaluate title_def [symmetric] access_message_def [symmetric]
  by (simp add: returns_def split: option.split sum.split)

lemma handle_frappe_server_error_eq:
  "handle_frappe_server_error self c r =
     (case json r of
        None \<Rightarrow> ([], Inl JSONDecodeError)
      | Some response_data \<Rightarrow>
          (case (if py_truthy c then Inr False else py_in ''exc_type'' response_data) of
             Inl e \<Rightarrow> ([], Inl e)
           | Inr errored \<Rightarrow>
               if errored
               then (case py_get response_data ''exception'' JNull of
                       Inl e \<Rightarrow> ([LogError title (Content (content r))], Inl e)
                     | Inr exc \<Rightarrow>
                         (LogError title (Content (content r))
                            # fst (set_in_account self (if py_truthy exc then exc else JStr server_message))
                            @ [Throw title (if py_truthy exc then exc else JStr server_message)],
                          Inl (BankingError (if py_truthy exc then exc else JStr server_message))))
               else ([], Inr ())))"
  unfolding handle_frappe_server_error_def translate_def Let_def persisting and_then_log_error
    and_then_evaluate title_def [symmetric] server_message_def [symmetric]
  by (simp add: returns_def split: option.split sum.split)

lemma consent_info:
  "format0 (translate ''Please go to Banking Settings and click on {0}.'')
     (bold (translate ''Link Bank and Accounts'')) = instruction"
  by (simp add: translate_def bold_def instruction_def)

lemma get_msg_object:
  "get_msg (JObj kvs) =
     (if map_of kvs ''code'' = Some (JStr consent_code)
      then py_iadd (case map_of kvs ''message'' of Some v \<Rightarrow> v | None \<Rightarrow> JNull) ('' '' @ instruction)
      else Inr (case map_of kvs ''message'' of Some v \<Rightarrow> v | None \<Rightarrow> JNull))"
  unfolding get_msg_def consent_info consent_code_def [symmetric]
  by (simp split: option.split)

lemma get_msg_other: "\<forall>kvs. error \<noteq> JObj kvs \<Longrightarrow> get_msg error = Inl AttributeError"
  by (cases error) (simp_all add: get_msg_def)

lemma raise_admin_error_eq:
  "raise_admin_error rt self ed =
     (case py_get ed ''errors'' JNull of
        Inl e \<Rightarrow> ([], Inl e)
      | Inr errors \<Rightarrow>
          if py_truthy errors
          then (case py_iter errors of
                  Inl e \<Rightarrow> ([], Inl e)
                | Inr errs \<Rightarrow>
                    (case map_raising (error_line rt) errs of
                       Inl e \<Rightarrow> ([], Inl e)
                     | Inr error_list \<Rightarrow>
                         (fst (set_in_account self (JStr (lead_in @ html_list error_list)))
                            @ [Throw title (JStr (lead_in @ html_list error_list))],
                          Inl (BankingError (JStr (lead_in @ html_list error_list))))))
          else (case py_get ed ''message'' JNull of
                  Inl e \<Rightarrow> ([], Inl e)
                | Inr m \<Rightarrow>
                    if py_truthy m
                    then (case get_msg ed of
                            Inl e \<Rightarrow> ([], Inl e)
                          | Inr message \<Rightarrow>
                              (fst (set_in_account self message) @ [Throw title message],
                               Inl (BankingError message)))
                    else ([], Inr ())))"
  unfolding raise_admin_error_def translate_def Let_def persisting and_then_evaluate
    title_def [symmetric] lead_in_def [symmetric] html_list_def [symmetric] append_assoc [symmetric]
  apply (simp only: append_assoc html_list_def [symmetric])
  apply (simp add: returns_def split: sum.split)
  done

lemma handle_admin_error_eq:
  "handle_admin_error rt self c =
     (case error_data_of c of
        Inl e \<Rightarrow> ([], Inl e)
      | Inr error_data \<Rightarrow>
          (LogError title (Dumps error_data) # fst (raise_admin_error rt self error_data),
           snd (raise_admin_error rt self error_data)))"
  unfolding handle_admin_error_def translate_def and_then_evaluate and_then_log_error
    title_def [symmetric]
  by (rule refl)

subsection \<open>Runtime errors are not Domain Errors\<close>

lemma py_get_plain: "py_get v k d \<noteq> Inl (BankingError m)"
  by (cases v) simp_all

lemma py_iter_plain: "py_iter v \<noteq> Inl (BankingError m)"
  by (cases v) simp_all

lemma py_iadd_plain: "py_iadd v s \<noteq> Inl (BankingError m)"
  by (cases v) simp_all

lemma py_in_plain: "py_in k v \<noteq> Inl (BankingError m)"
  by (cases v) simp_all

lemma get_msg_plain: "get_msg v \<noteq> Inl (BankingError m)"
  by (cases v) (simp_all add: get_msg_object py_iadd_plain get_msg_other)

lemma error_data_of_plain: "error_data_of c \<noteq> Inl (BankingError m)"
  using py_get_plain [of c _ "JObj []" m]
  by (auto simp add: error_data_of_def split: sum.splits if_splits)

lemma error_line_plain: "error_line rt v \<noteq> Inl (BankingError m)"
  using py_get_plain [of v "''location''" JNull m] get_msg_plain [of v m]
  by (auto simp add: error_line_def split: sum.splits)

lemma map_raising_plain:
  "(\<And>x. f x \<noteq> Inl (BankingError m)) \<Longrightarrow> map_raising f xs \<noteq> Inl (BankingError m)"
  by (induction xs) (auto split: sum.splits)

subsection \<open>The shape of a run\<close>

lemma raise_admin_error_thrown:
  "snd (raise_admin_error rt self ed) = Inl (BankingError m) \<Longrightarrow>
   fst (raise_admin_error rt self ed) = fst (set_in_account self m) @ [Throw title m]"
  using py_get_plain [of ed _ JNull m] py_iter_plain [of _ m] get_msg_plain [of ed m]
    map_raising_plain [of "error_line rt" m, OF error_line_plain]
  by (auto simp add: raise_admin_error_eq split: sum.splits if_splits)

lemma raise_admin_error_quiet:
  "\<forall>m. snd (raise_admin_error rt self ed) \<noteq> Inl (BankingError m) \<Longrightarrow>
   fst (raise_admin_error rt self ed) = []"
  by (auto simp add: raise_admin_error_eq split: sum.splits if_splits)

lemma handle_admin_error_thrown:
  "snd (handle_admin_error rt self c) = Inl (BankingError m) \<Longrightarrow>
   \<exists>lm. fst (handle_admin_error rt self c)
          = LogError title lm # fst (set_in_account self m) @ [Throw title m]"
  using error_data_of_plain [of c m]
  by (auto simp add: handle_admin_error_eq raise_admin_error_thrown split: sum.splits if_splits)

lemma raise_admin_error_events:
  "e \<in> set (fst (raise_admin_error rt self ed)) \<Longrightarrow>
   \<exists>m. snd (raise_admin_error rt self ed) = Inl (BankingError m)"
  by (metis empty_iff list.set(1) raise_admin_error_quiet)

lemma handle_admin_error_throw_only:
  "e \<in> set (fst (handle_admin_error rt self c)) \<Longrightarrow> is_throw e \<Longrightarrow>
   \<exists>m. snd (handle_admin_error rt self c) = Inl (BankingError m)"
  by (auto simp add: handle_admin_error_eq dest: raise_admin_error_events
        split: sum.splits if_splits)

lemma handle_frappe_server_error_thrown:
  "snd (handle_frappe_server_error self c r) = Inl (BankingError m) \<Longrightarrow>
   \<exists>lm. fst (handle_frappe_server_error self c r)
          = LogError title lm # fst (set_in_account self m) @ [Throw title m]"
  using py_get_plain [of _ _ JNull m] py_in_plain [of _ _ m]
  by (auto simp add: handle_frappe_server_error_eq split: option.splits sum.splits if_splits)

lemma handle_frappe_server_error_throw_only:
  "e \<in> set (fst (handle_frappe_server_error self c r)) \<Longrightarrow> is_throw e \<Longrightarrow>
   \<exists>m. snd (handle_frappe_server_error self c r) = Inl (BankingError m)"
  by (auto simp add: handle_frappe_server_error_eq split: option.splits sum.splits if_splits)

lemma handle_frappe_server_error_returned:
  "snd (handle_frappe_server_error self c r) = Inr u \<Longrightarrow>
   fst (handle_frappe_server_error self c r) = []"
  by (auto simp add: handle_frappe_server_error_eq split: option.splits sum.splits if_splits)

lemma handle_authorization_error_thrown:
  "snd (handle_authorization_error self r) = Inl (BankingError m) \<Longrightarrow>
   \<exists>lm. fst (handle_authorization_error self r)
          = LogError title lm # fst (set_in_account self m) @ [Throw title m]"
  using py_get_plain [of _ _ "JObj []" m]
  by (auto simp add: handle_authorization_error_eq split: option.splits sum.splits if_splits)

lemma handle_authorization_error_throw_only:
  "e \<in> set (fst (handle_authorization_error self r)) \<Longrightarrow> is_throw e \<Longrightarrow>
   \<exists>m. snd (handle_authorization_error self r) = Inl (BankingError m)"
  by (auto simp add: handle_authorization_error_eq split: option.splits sum.splits if_splits)


subsection \<open>The chain\<close>

lemma handle_error_other:
  "exception self = OtherException n \<Longrightarrow>
   handle_error rt self =
     (fst (set_in_account self (JStr retry_message)) @ [LogError title (Traceback (handled rt))],
      case handled rt of None \<Rightarrow> Inl RuntimeError | Some e \<Rightarrow> Inl (Reraised e))"
  unfolding handle_error_def translate_def and_then_set_in_account and_then_log_error
    title_def [symmetric] retry_message_def [symmetric]
  by (simp add: reraise_def raises_def split: option.split)

lemma handle_error_no_response:
  "exception self = HTTPError None \<Longrightarrow> handle_error rt self = ([], Inl AttributeError)"
  by (simp add: handle_error_def and_then_evaluate)

lemma handle_error_http:
  "exception self = HTTPError (Some r) \<Longrightarrow>
   handle_error rt self =
     (if status_code r = 401 then handle_auth_error self r
      else if status_code r = 403 then handle_authorization_error self r
      else if \<not> substring ''application/json''
                  (case headers r ''Content-Type'' of Some v \<Rightarrow> v | None \<Rightarrow> [])
        then handle_txt_html_error self r
      else (case json r of
              None \<Rightarrow> ([], Inl JSONDecodeError)
            | Some body \<Rightarrow>
                (case py_get body ''message'' (JObj []) of
                   Inl e \<Rightarrow> ([], Inl e)
                 | Inr c \<Rightarrow>
                     (case snd (handle_frappe_server_error self c r) of
                        Inl e \<Rightarrow> handle_frappe_server_error self c r
                      | Inr u \<Rightarrow> handle_admin_error rt self c))))"
proof -
  assume ex: "exception self = HTTPError (Some r)"
  have step: "and_then m f = (case snd m of Inl e \<Rightarrow> m | Inr x \<Rightarrow> (fst m @ fst (f x), snd (f x)))"
    for m :: "unit result" and f :: "unit \<Rightarrow> unit result"
    by (cases m) (simp add: and_then_def split: sum.splits prod.splits)
  have unfold: "handle_error rt self =
      and_then (handle_auth_error self r)
        (\<lambda>_. and_then (handle_authorization_error self r)
        (\<lambda>_. and_then (handle_txt_html_error self r)
        (\<lambda>_. and_then (evaluate (case json r of None \<Rightarrow> Inl JSONDecodeError | Some body \<Rightarrow> Inr body))
        (\<lambda>body. and_then (evaluate (py_get body ''message'' (JObj [])))
        (\<lambda>c. and_then (handle_frappe_server_error self c r)
        (\<lambda>_. handle_admin_error rt self c))))))"
    using ex by (simp add: handle_error_def and_then_evaluate)
  have server: "and_then (handle_frappe_server_error self c r) (\<lambda>_. handle_admin_error rt self c)
      = (case snd (handle_frappe_server_error self c r) of
           Inl e \<Rightarrow> handle_frappe_server_error self c r
         | Inr u \<Rightarrow> handle_admin_error rt self c)" for c
    by (simp add: step handle_frappe_server_error_returned split: sum.splits)
  show ?thesis
  proof (cases "status_code r = 401")
    case True
    then show ?thesis
      by (simp add: unfold handle_auth_error_eq and_then_raised)
  next
    case not401: False
    show ?thesis
    proof (cases "status_code r = 403")
      case True
      then have "\<exists>e. snd (handle_authorization_error self r) = Inl e"
        by (simp add: handle_authorization_error_eq split: option.splits sum.splits)
      with True not401 show ?thesis
        by (auto simp add: unfold handle_auth_error_eq and_then_returned step)
    next
      case not403: False
      show ?thesis
        using not401 not403
        by (simp add: unfold server handle_auth_error_eq handle_authorization_error_eq
              handle_txt_html_error_eq and_then_returned and_then_raised and_then_evaluate
              split: option.splits sum.splits)
    qed
  qed
qed

lemma handle_error_http_cases:
  assumes "exception self = HTTPError (Some r)"
  obtains (auth) "handle_error rt self = handle_auth_error self r"
  | (authorization) "handle_error rt self = handle_authorization_error self r"
  | (txt_html) "handle_error rt self = handle_txt_html_error self r"
  | (runtime) e where "handle_error rt self = ([], Inl e)" "\<forall>m. e \<noteq> BankingError m"
  | (server) c where "handle_error rt self = handle_frappe_server_error self c r"
  | (admin) c where "handle_error rt self = handle_admin_error rt self c"
proof -
  note eq = handle_error_http [OF assms, of rt]
  show thesis
  proof (cases "status_code r = 401")
    case True
    with eq auth show thesis by simp
  next
    case not401: False
    show thesis
    proof (cases "status_code r = 403")
      case True
      with eq not401 authorization show thesis by simp
    next
      case not403: False
      show thesis
      proof (cases "substring ''application/json''
                      (case headers r ''Content-Type'' of Some v \<Rightarrow> v | None \<Rightarrow> [])")
        case False
        with eq not401 not403 txt_html show thesis by simp
      next
        case is_json: True
        show thesis
        proof (cases "json r")
          case None
          with eq not401 not403 is_json runtime [of JSONDecodeError] show thesis by simp
        next
          case (Some body)
          show thesis
          proof (cases "py_get body ''message'' (JObj [])")
            case (Inl e)
            with eq not401 not403 is_json Some runtime [of e] py_get_plain [of body _ "JObj []"]
            show thesis by auto
          next
            case (Inr c)
            show thesis
            proof (cases "snd (handle_frappe_server_error self c r)")
              case (Inl e)
              with eq not401 not403 is_json Some Inr server [of c] show thesis by simp
            next
              case inr: (Inr u)
              with eq not401 not403 is_json Some Inr admin [of c] show thesis by simp
            qed
          qed
        qed
      qed
    qed
  qed
qed

lemma handle_error_thrown:
  assumes "snd (handle_error rt self) = Inl (BankingError m)"
  shows "\<exists>lm. fst (handle_error rt self)
               = LogError title lm # fst (set_in_account self m) @ [Throw title m]"
proof (cases "exception self")
  case (OtherException n)
  with assms show ?thesis
    by (simp add: handle_error_other split: option.splits)
next
  case (HTTPError response)
  then show ?thesis
  proof (cases response)
    case None
    with HTTPError assms show ?thesis
      by (simp add: handle_error_no_response)
  next
    case (Some r)
    with HTTPError have "exception self = HTTPError (Some r)"
      by simp
    then show ?thesis
    proof (cases rule: handle_error_http_cases [of self r rt])
      case auth
      with assms show ?thesis
        by (simp add: handle_auth_error_eq split: if_splits)
    next
      case authorization
      with assms show ?thesis
        by (simp add: handle_authorization_error_thrown)
    next
      case txt_html
      with assms show ?thesis
        by (simp add: handle_txt_html_error_eq split: if_splits)
    next
      case (runtime e)
      with assms show ?thesis
        by simp
    next
      case (server c)
      with assms show ?thesis
        by (simp add: handle_frappe_server_error_thrown)
    next
      case (admin c)
      with assms show ?thesis
        by (simp add: handle_admin_error_thrown)
    qed
  qed
qed

lemma handle_error_throw_only:
  assumes "e \<in> set (fst (handle_error rt self))" and "is_throw e"
  shows "\<exists>m. snd (handle_error rt self) = Inl (BankingError m)"
proof (cases "exception self")
  case (OtherException n)
  with assms show ?thesis
    by (auto simp add: handle_error_other dest: set_in_account_no_throw)
next
  case (HTTPError response)
  then show ?thesis
  proof (cases response)
    case None
    with HTTPError assms show ?thesis
      by (simp add: handle_error_no_response)
  next
    case (Some r)
    with HTTPError have "exception self = HTTPError (Some r)"
      by simp
    then show ?thesis
    proof (cases rule: handle_error_http_cases [of self r rt])
      case auth
      with assms show ?thesis
        by (simp add: handle_auth_error_eq split: if_splits)
    next
      case authorization
      with assms show ?thesis
        by (simp add: handle_authorization_error_throw_only)
    next
      case txt_html
      with assms show ?thesis
        by (simp add: handle_txt_html_error_eq split: if_splits)
    next
      case (runtime e')
      with assms show ?thesis
        by simp
    next
      case (server c)
      with assms show ?thesis
        by (simp add: handle_frappe_server_error_throw_only)
    next
      case (admin c)
      with assms show ?thesis
        by (simp add: handle_admin_error_throw_only)
    qed
  qed
qed

subsection \<open>Substrings\<close>

lemma substring_here: "substring sub (sub @ ss)"
proof (cases "sub @ ss")
  case Nil
  then show ?thesis by simp
next
  case (Cons c cs)
  have "take (length sub) (sub @ ss) = sub" by simp
  with Cons show ?thesis by simp
qed

lemma substring_append: "substring sub (ps @ sub @ ss)"
  by (induction ps) (simp_all add: substring_here)

subsection \<open>The lines of the error list\<close>



subsection \<open>The calls of frappe.throw in a run\<close>

lemma filter_set_in_account: "filter is_throw (fst (set_in_account self m)) = []"
  by (simp add: filter_empty_conv set_in_account_no_throw)

lemma handle_error_events:
  "(\<exists>m lm. handle_error rt self
             = (LogError title lm # fst (set_in_account self m) @ [Throw title m],
                Inl (BankingError m)))
   \<or> ((\<forall>e\<in>set (fst (handle_error rt self)). \<not> is_throw e)
       \<and> (\<forall>m. snd (handle_error rt self) \<noteq> Inl (BankingError m)))"
proof (cases "\<exists>m. snd (handle_error rt self) = Inl (BankingError m)")
  case True
  then obtain m where m: "snd (handle_error rt self) = Inl (BankingError m)" ..
  from handle_error_thrown [OF m] obtain lm where
    "fst (handle_error rt self) = LogError title lm # fst (set_in_account self m) @ [Throw title m]" ..
  with m have "handle_error rt self
      = (LogError title lm # fst (set_in_account self m) @ [Throw title m], Inl (BankingError m))"
    by (simp add: prod_eq_iff)
  then show ?thesis by blast
next
  case False
  then show ?thesis
    using handle_error_throw_only [of _ rt self] by blast
qed

section \<open>The claims\<close>

subsection \<open>C1: one Domain Error at most, and nothing after it\<close>

text \<open>
  Claim C1, as amended. In every run of \<open>handle_error\<close>, \<open>frappe.throw\<close> is called at most once;
  when it is called, the call is the last event of the run, no earlier event is a call of
  it, and the run ends with the Domain Error of that call; a run that ends with a Domain
  Error has made the call. When no step matches (the failure is an HTTP error, the status
  is neither 401 nor 403, the content type is JSON, the server-error test fails, and
  \<open>error_data\<close> has neither a truthy \<open>errors\<close> nor a truthy \<open>message\<close>) and the body parses to an
  object whose \<open>message\<close> (or its default) and \<open>error_data\<close> are objects, the run writes the one
  log entry for \<open>error_data\<close> and returns normally.
\<close>

theorem one_domain_error_short_circuit:
  "length (filter is_throw (fst (handle_error rt self))) \<le> 1
   \<and> (\<forall>t m. Throw t m \<in> set (fst (handle_error rt self)) \<longrightarrow>
          snd (handle_error rt self) = Inl (BankingError m)
          \<and> (\<exists>evs. fst (handle_error rt self) = evs @ [Throw t m]
                 \<and> filter is_throw evs = []))
   \<and> (\<forall>m. snd (handle_error rt self) = Inl (BankingError m) \<longrightarrow>
          (\<exists>t. Throw t m \<in> set (fst (handle_error rt self))))
   \<and> (exception self = HTTPError (Some r) \<and> status_code r \<noteq> 401 \<and> status_code r \<noteq> 403
        \<and> headers r ''Content-Type'' = Some content_type
        \<and> substring ''application/json'' content_type
        \<and> json r = Some (JObj body)
        \<and> (case map_of body ''message'' of Some v \<Rightarrow> v | None \<Rightarrow> JObj []) = JObj envelope
        \<and> \<not> (envelope = [] \<and> ''exc_type'' \<in> fst ` set body)
        \<and> error_data_of (JObj envelope) = Inr (JObj error_data)
        \<and> \<not> py_truthy (case map_of error_data ''errors'' of Some v \<Rightarrow> v | None \<Rightarrow> JNull)
        \<and> \<not> py_truthy (case map_of error_data ''message'' of Some v \<Rightarrow> v | None \<Rightarrow> JNull)
      \<longrightarrow> handle_error rt self = ([LogError title (Dumps (JObj error_data))], Inr ()))"
  (is "?count \<and> ?last \<and> ?some \<and> ?falls")
proof -
  have throws: "?count \<and> ?last \<and> ?some"
    using handle_error_events [of rt self]
  proof
    assume "\<exists>m lm. handle_error rt self
        = (LogError title lm # fst (set_in_account self m) @ [Throw title m],
           Inl (BankingError m))"
    then obtain m lm where run: "handle_error rt self
        = (LogError title lm # fst (set_in_account self m) @ [Throw title m],
           Inl (BankingError m))"
      by blast
    define evs where "evs = LogError title lm # fst (set_in_account self m)"
    have quiet: "filter is_throw evs = []"
      by (simp add: evs_def filter_set_in_account)
    have events: "fst (handle_error rt self) = evs @ [Throw title m]"
      by (simp add: run evs_def)
    have outcome: "snd (handle_error rt self) = Inl (BankingError m)"
      by (simp add: run)
    have only: "t = title \<and> m' = m" if "Throw t m' \<in> set (evs @ [Throw title m])" for t m'
    proof -
      have "Throw t m' \<notin> set evs"
        using quiet by (auto simp add: filter_empty_conv)
      with that show ?thesis by simp
    qed
    have c: ?count
      by (simp add: events quiet)
    have l: ?last
      using only quiet outcome unfolding events by blast
    have s: ?some
      unfolding events outcome by auto
    from c l s show ?thesis by blast
  next
    assume quiet: "(\<forall>e\<in>set (fst (handle_error rt self)). \<not> is_throw e)
        \<and> (\<forall>m. snd (handle_error rt self) \<noteq> Inl (BankingError m))"
    then have none: "filter is_throw (fst (handle_error rt self)) = []"
      by (simp add: filter_empty_conv)
    have absent: "Throw t m \<notin> set (fst (handle_error rt self))" for t m
      using quiet by force
    have c: ?count
      by (simp add: none)
    have l: ?last
      using absent by blast
    have s: ?some
      using quiet by blast
    from c l s show ?thesis by blast
  qed
  have falls_through: ?falls
  proof (intro impI, elim conjE)
    assume h: "exception self = HTTPError (Some r)" "status_code r \<noteq> 401" "status_code r \<noteq> 403"
      "headers r ''Content-Type'' = Some content_type"
      "substring ''application/json'' content_type"
      "json r = Some (JObj body)"
      "(case map_of body ''message'' of Some v \<Rightarrow> v | None \<Rightarrow> JObj []) = JObj envelope"
      "\<not> (envelope = [] \<and> ''exc_type'' \<in> fst ` set body)"
      "error_data_of (JObj envelope) = Inr (JObj error_data)"
      "\<not> py_truthy (case map_of error_data ''errors'' of Some v \<Rightarrow> v | None \<Rightarrow> JNull)"
      "\<not> py_truthy (case map_of error_data ''message'' of Some v \<Rightarrow> v | None \<Rightarrow> JNull)"
    have server: "handle_frappe_server_error self (JObj envelope) r = ([], Inr ())"
      using h(6,8) by (auto simp add: handle_frappe_server_error_eq)
    have admin: "handle_admin_error rt self (JObj envelope)
        = ([LogError title (Dumps (JObj error_data))], Inr ())"
      using h(9,10,11) by (simp add: handle_admin_error_eq raise_admin_error_eq)
    have message: "py_get (JObj body) ''message'' (JObj []) = Inr (JObj envelope)"
      using h(7) by simp
    show "handle_error rt self = ([LogError title (Dumps (JObj error_data))], Inr ())"
      using h(2-6) server admin message by (simp add: handle_error_http [OF h(1)])
  qed
  from throws falls_through show ?thesis
    by (elim conjE, intro conjI) assumption+
qed

theorem one_domain_error_short_circuit_witness:
  "Throw ''Banking Error'' (JStr ''Authentication error due to invalid credentials.'')
     \<in> set (fst (handle_error \<lparr>handled = None, py_str = (\<lambda>v. ''None'')\<rparr>
                   \<lparr>exception = HTTPError (Some \<lparr>status_code = 401,
                                            headers = [''Content-Type'' \<mapsto> ''application/json''],
                                            content = ''(raw body)'',
                                            json = Some (JObj [])\<rparr>),
                    account = None\<rparr>))
   \<and> snd (handle_error \<lparr>handled = None, py_str = (\<lambda>v. ''None'')\<rparr>
            \<lparr>exception = HTTPError (Some \<lparr>status_code = 401,
                                     headers = [''Content-Type'' \<mapsto> ''application/json''],
                                     content = ''(raw body)'',
                                     json = Some (JObj [])\<rparr>),
             account = None\<rparr>)
     = Inl (BankingError (JStr ''Authentication error due to invalid credentials.''))
   \<and> handle_error \<lparr>handled = None, py_str = (\<lambda>v. ''None'')\<rparr>
        \<lparr>exception = HTTPError (Some \<lparr>status_code = 404,
                                 headers = [''Content-Type'' \<mapsto> ''application/json''],
                                 content = ''(raw body)'',
                                 json = Some (JObj [(''message'',
                                                     JObj [(''data'', JObj [(''items'', JArr [])])])])\<rparr>),
         account = Some ''ACC-0001''\<rparr>
     = ([LogError ''Banking Error'' (Dumps (JObj [(''items'', JArr [])]))], Inr ())"
proof -
  let ?rt = "\<lparr>handled = None, py_str = (\<lambda>v. ''None'')\<rparr>"
  let ?self = "\<lparr>exception = HTTPError (Some \<lparr>status_code = 401,
                                            headers = [''Content-Type'' \<mapsto> ''application/json''],
                                            content = ''(raw body)'',
                                            json = Some (JObj [])\<rparr>),
                    account = None\<rparr>"
  let ?r = "\<lparr>status_code = 404,
                                 headers = [''Content-Type'' \<mapsto> ''application/json''],
                                 content = ''(raw body)'',
                                 json = Some (JObj [(''message'',
                                                     JObj [(''data'', JObj [(''items'', JArr [])])])])\<rparr>"
  let ?self' = "\<lparr>exception = HTTPError (Some ?r), account = Some ''ACC-0001''\<rparr>"
  have thrown: "Throw ''Banking Error'' (JStr ''Authentication error due to invalid credentials.'')
      \<in> set (fst (handle_error ?rt ?self))"
    by (simp add: handle_error_http handle_auth_error_eq title_def credentials_message_def)
  with one_domain_error_short_circuit [of ?rt ?self]
  have outcome: "snd (handle_error ?rt ?self)
      = Inl (BankingError (JStr ''Authentication error due to invalid credentials.''))"
    by blast
  have "handle_error ?rt ?self' = ([LogError title (Dumps (JObj [(''items'', JArr [])]))], Inr ())"
    using one_domain_error_short_circuit
      [of ?rt ?self' ?r "''application/json''"
          "[(''message'', JObj [(''data'', JObj [(''items'', JArr [])])])]"
          "[(''data'', JObj [(''items'', JArr [])])]"
          "[(''items'', JArr [])]"]
    by (simp add: error_data_of_def)
  with thrown outcome show ?thesis
    by (simp add: title_def)
qed

text \<open>
  Claim C1 as the specification words it promises a normal return whenever no step
  matches. A response that announces JSON and whose body does not parse matches no step,
  and \<open>response.json()\<close> raises: the run ends with the parser's error.
\<close>

theorem unparsable_body_counterexample:
  "handle_error \<lparr>handled = None, py_str = (\<lambda>v. ''None'')\<rparr>
     \<lparr>exception = HTTPError (Some \<lparr>status_code = 502,
                              headers = [''Content-Type'' \<mapsto> ''application/json''],
                              content = ''<html>Bad Gateway</html>'',
                              json = None\<rparr>),
      account = Some ''ACC-0001''\<rparr>
     = ([], Inl JSONDecodeError)"
  by (simp add: handle_error_http)

subsection \<open>C2: a message that is not an object\<close>

text \<open>
  Claim C2 says that a payload of unrecognized shape, such as a \<open>message\<close> that is null or a
  plain string with no \<open>exc_type\<close>, is classified without raising. The code calls
  \<open>content.get\<close> on that message in \<open>handle_admin_error\<close>: on a string and on \<open>None\<close> the call
  raises \<open>AttributeError\<close>, before anything is logged. (\<open>handle_authorization_error\<close> tests
  \<open>isinstance(content, str)\<close>; \<open>handle_admin_error\<close> has no such test.)
\<close>

theorem plain_message_crashes:
  "handle_error \<lparr>handled = None, py_str = (\<lambda>v. ''None'')\<rparr>
     \<lparr>exception = HTTPError (Some \<lparr>status_code = 500,
                              headers = [''Content-Type'' \<mapsto> ''application/json''],
                              content = ''(raw body)'',
                              json = Some (JObj [(''message'', JStr ''Internal Server Error'')])\<rparr>),
      account = Some ''ACC-0001''\<rparr>
     = ([], Inl AttributeError)
   \<and> handle_error \<lparr>handled = None, py_str = (\<lambda>v. ''None'')\<rparr>
     \<lparr>exception = HTTPError (Some \<lparr>status_code = 500,
                              headers = [''Content-Type'' \<mapsto> ''application/json''],
                              content = ''(raw body)'',
                              json = Some (JObj [(''message'', JNull)])\<rparr>),
      account = Some ''ACC-0001''\<rparr>
     = ([], Inl AttributeError)"
  by (simp add: handle_error_http handle_frappe_server_error_eq handle_admin_error_eq
        error_data_of_def)

subsection \<open>C3: a failure that is not an HTTPError\<close>

text \<open>
  Claim C3, as amended. When the caught failure is not an \<open>HTTPError\<close> and it is the
  exception being handled, \<open>handle_error\<close> writes the fixed retry message to the account if
  one was supplied, logs the stack trace under the fixed title, and re-raises that same
  failure; no Domain Error is raised.
\<close>

theorem non_http_failure_reraised:
  assumes "exception self = OtherException n" and "handled rt = Some (exception self)"
  shows "handle_error rt self
           = (fst (set_in_account self (JStr retry_message))
                @ [LogError title (Traceback (Some (exception self)))],
              Inl (Reraised (exception self)))
       \<and> (\<forall>a. account self = Some a \<and> a \<noteq> [] \<longrightarrow>
              fst (handle_error rt self)
                = [SetValue ''Bank Account'' a ''error_message'' (JStr retry_message), Commit,
                   LogError title (Traceback (Some (exception self)))])"
  using assms by (simp add: handle_error_other set_in_account_supplied)

theorem non_http_failure_reraised_witness:
  "exception \<lparr>exception = OtherException ''ConnectionError'', account = Some ''ACC-0001''\<rparr>
     = OtherException ''ConnectionError''
   \<and> handled \<lparr>handled = Some (OtherException ''ConnectionError''), py_str = (\<lambda>v. ''None'')\<rparr>
     = Some (exception \<lparr>exception = OtherException ''ConnectionError'', account = Some ''ACC-0001''\<rparr>)
   \<and> handle_error \<lparr>handled = Some (OtherException ''ConnectionError''), py_str = (\<lambda>v. ''None'')\<rparr>
        \<lparr>exception = OtherException ''ConnectionError'', account = Some ''ACC-0001''\<rparr>
     = ([SetValue ''Bank Account'' ''ACC-0001'' ''error_message''
           (JStr ''Something went wrong. Please retry in a while.''),
         Commit,
         LogError ''Banking Error'' (Traceback (Some (OtherException ''ConnectionError'')))],
        Inl (Reraised (OtherException ''ConnectionError'')))"
  using non_http_failure_reraised
    [of "\<lparr>exception = OtherException ''ConnectionError'', account = Some ''ACC-0001''\<rparr>"
        "''ConnectionError''"
        "\<lparr>handled = Some (OtherException ''ConnectionError''), py_str = (\<lambda>v. ''None'')\<rparr>"]
  by (simp add: retry_message_def title_def set_in_account_supplied)

text \<open>
  Claim C3 as the specification words it covers every failure that carries no HTTP
  response. The test in \<open>handle_error\<close> is on the class: an \<open>HTTPError\<close> whose \<open>response\<close> is
  \<open>None\<close> passes it, and \<open>response.status_code\<close> raises \<open>AttributeError\<close>; nothing is written
  or logged, and the failure is not re-raised.
\<close>

theorem http_error_without_response_counterexample:
  "handle_error \<lparr>handled = Some (HTTPError None), py_str = (\<lambda>v. ''None'')\<rparr>
     \<lparr>exception = HTTPError None, account = Some ''ACC-0001''\<rparr>
     = ([], Inl AttributeError)"
  by (simp add: handle_error_no_response)

subsection \<open>C4: the order of log entry, account message and raise\<close>

text \<open>
  Claim C4, as amended. Whenever a run ends with a Domain Error (status 401, status 403,
  a response that is not JSON, a server error, a vendor error), its events are, in this
  order: one log entry, the writes of the raised message to the account (none without an
  account), and the call of \<open>frappe.throw\<close>. For a failure that is not an HTTP error the
  events are the writes of the retry message to the account followed by the log entry, and
  then the failure is re-raised. So the log entry and the account message both precede
  the raise.
\<close>

theorem log_and_persist_precede_raise:
  "(\<forall>m. snd (handle_error rt self) = Inl (BankingError m) \<longrightarrow>
      (\<exists>lm. fst (handle_error rt self)
              = LogError title lm # fst (set_in_account self m) @ [Throw title m]))
   \<and> (\<forall>n. exception self = OtherException n \<longrightarrow>
        handle_error rt self
          = (fst (set_in_account self (JStr retry_message))
               @ [LogError title (Traceback (handled rt))],
             case handled rt of None \<Rightarrow> Inl RuntimeError | Some e \<Rightarrow> Inl (Reraised e)))"
  using handle_error_thrown [of rt self] handle_error_other [of self _ rt]
  by blast

theorem log_and_persist_precede_raise_witness:
  "snd (handle_error \<lparr>handled = None, py_str = (\<lambda>v. ''None'')\<rparr>
          \<lparr>exception = HTTPError (Some \<lparr>status_code = 401,
                                   headers = [''Content-Type'' \<mapsto> ''application/json''],
                                   content = ''(raw body)'',
                                   json = Some (JObj [])\<rparr>),
           account = Some ''ACC-0001''\<rparr>)
     = Inl (BankingError (JStr ''Authentication error due to invalid credentials.''))
   \<and> (\<exists>lm. fst (handle_error \<lparr>handled = None, py_str = (\<lambda>v. ''None'')\<rparr>
                  \<lparr>exception = HTTPError (Some \<lparr>status_code = 401,
                                   headers = [''Content-Type'' \<mapsto> ''application/json''],
                                   content = ''(raw body)'',
                                   json = Some (JObj [])\<rparr>),
                   account = Some ''ACC-0001''\<rparr>)
          = [LogError ''Banking Error'' lm,
             SetValue ''Bank Account'' ''ACC-0001'' ''error_message''
               (JStr ''Authentication error due to invalid credentials.''),
             Commit,
             Throw ''Banking Error'' (JStr ''Authentication error due to invalid credentials.'')])
   \<and> handle_error \<lparr>handled = Some (OtherException ''Timeout''), py_str = (\<lambda>v. ''None'')\<rparr>
        \<lparr>exception = OtherException ''Timeout'', account = Some ''ACC-0001''\<rparr>
     = ([SetValue ''Bank Account'' ''ACC-0001'' ''error_message''
           (JStr ''Something went wrong. Please retry in a while.''),
         Commit,
         LogError ''Banking Error'' (Traceback (Some (OtherException ''Timeout'')))],
        Inl (Reraised (OtherException ''Timeout'')))"
proof -
  let ?rt = "\<lparr>handled = None, py_str = (\<lambda>v. ''None'')\<rparr>"
  let ?self = "\<lparr>exception = HTTPError (Some \<lparr>status_code = 401,
                                   headers = [''Content-Type'' \<mapsto> ''application/json''],
                                   content = ''(raw body)'',
                                   json = Some (JObj [])\<rparr>),
           account = Some ''ACC-0001''\<rparr>"
  let ?rt' = "\<lparr>handled = Some (OtherException ''Timeout''), py_str = (\<lambda>v. ''None'')\<rparr>"
  let ?self' = "\<lparr>exception = OtherException ''Timeout'', account = Some ''ACC-0001''\<rparr>"
  have raised: "snd (handle_error ?rt ?self)
      = Inl (BankingError (JStr ''Authentication error due to invalid credentials.''))"
    by (simp add: handle_error_http handle_auth_error_eq credentials_message_def)
  from log_and_persist_precede_raise [of ?rt ?self] raised
  have "\<exists>lm. fst (handle_error ?rt ?self)
      = LogError title lm
          # fst (set_in_account ?self (JStr ''Authentication error due to invalid credentials.''))
          @ [Throw title (JStr ''Authentication error due to invalid credentials.'')]"
    by blast
  then have shape: "\<exists>lm. fst (handle_error ?rt ?self)
      = [LogError ''Banking Error'' lm,
         SetValue ''Bank Account'' ''ACC-0001'' ''error_message''
           (JStr ''Authentication error due to invalid credentials.''),
         Commit,
         Throw ''Banking Error'' (JStr ''Authentication error due to invalid credentials.'')]"
    by (simp add: set_in_account_supplied title_def)
  from log_and_persist_precede_raise [of ?rt' ?self']
  have other: "handle_error ?rt' ?self'
      = ([SetValue ''Bank Account'' ''ACC-0001'' ''error_message''
            (JStr ''Something went wrong. Please retry in a while.''),
          Commit,
          LogError ''Banking Error'' (Traceback (Some (OtherException ''Timeout'')))],
         Inl (Reraised (OtherException ''Timeout'')))"
    by (simp add: set_in_account_supplied title_def retry_message_def)
  from raised shape other show ?thesis by blast
qed

text \<open>
  Claim C4 as the specification words it puts the raise before the write to the account.
  For status 401 with an account the write to the account comes before the call of
  \<open>frappe.throw\<close>, and no write follows it. It also puts the log entry first for every
  kind: for a failure that is not an HTTP error the write to the account comes before the
  log entry.
\<close>

theorem persist_before_raise_counterexample:
  "handle_error \<lparr>handled = None, py_str = (\<lambda>v. ''None'')\<rparr>
     \<lparr>exception = HTTPError (Some \<lparr>status_code = 401,
                              headers = [''Content-Type'' \<mapsto> ''application/json''],
                              content = ''(raw body)'',
                              json = Some (JObj [])\<rparr>),
      account = Some ''ACC-0001''\<rparr>
     = ([LogError ''Banking Error'' (Content ''(raw body)''),
         SetValue ''Bank Account'' ''ACC-0001'' ''error_message''
           (JStr ''Authentication error due to invalid credentials.''),
         Commit,
         Throw ''Banking Error'' (JStr ''Authentication error due to invalid credentials.'')],
        Inl (BankingError (JStr ''Authentication error due to invalid credentials.'')))
   \<and> occurs_before is_persist is_throw
        [LogError ''Banking Error'' (Content ''(raw body)''),
         SetValue ''Bank Account'' ''ACC-0001'' ''error_message''
           (JStr ''Authentication error due to invalid credentials.''),
         Commit,
         Throw ''Banking Error'' (JStr ''Authentication error due to invalid credentials.'')]
   \<and> \<not> occurs_before is_throw is_persist
        [LogError ''Banking Error'' (Content ''(raw body)''),
         SetValue ''Bank Account'' ''ACC-0001'' ''error_message''
           (JStr ''Authentication error due to invalid credentials.''),
         Commit,
         Throw ''Banking Error'' (JStr ''Authentication error due to invalid credentials.'')]
   \<and> handle_error \<lparr>handled = Some (OtherException ''Timeout''), py_str = (\<lambda>v. ''None'')\<rparr>
        \<lparr>exception = OtherException ''Timeout'', account = Some ''ACC-0001''\<rparr>
     = ([SetValue ''Bank Account'' ''ACC-0001'' ''error_message''
           (JStr ''Something went wrong. Please retry in a while.''),
         Commit,
         LogError ''Banking Error'' (Traceback (Some (OtherException ''Timeout'')))],
        Inl (Reraised (OtherException ''Timeout'')))
   \<and> occurs_before is_persist is_log
        [SetValue ''Bank Account'' ''ACC-0001'' ''error_message''
           (JStr ''Something went wrong. Please retry in a while.''),
         Commit,
         LogError ''Banking Error'' (Traceback (Some (OtherException ''Timeout'')))]
   \<and> \<not> occurs_before is_log is_persist
        [SetValue ''Bank Account'' ''ACC-0001'' ''error_message''
           (JStr ''Something went wrong. Please retry in a while.''),
         Commit,
         LogError ''Banking Error'' (Traceback (Some (OtherException ''Timeout'')))]"
  by (simp add: handle_error_http handle_auth_error_eq handle_error_other
        set_in_account_supplied title_def credentials_message_def retry_message_def)

subsection \<open>C5: status 403\<close>

text \<open>
  Claim C5, as amended. For an HTTP failure with status 403 whose body parses to a JSON
  object, \<open>handle_error\<close> logs the raw body and raises a Domain Error whose message is the
  body's \<open>message\<close> field when that is a string, and the fixed text about invalid access
  otherwise (the field is absent or is not a string); the same message is written to the
  account when one was supplied.
\<close>

theorem forbidden_message:
  assumes "exception self = HTTPError (Some r)" and "status_code r = 403"
    and "json r = Some (JObj body)"
  shows "handle_error rt self
           = (LogError title (Content (content r))
                # fst (set_in_account self
                        (JStr (case map_of body ''message'' of
                                 Some (JStr s) \<Rightarrow> s | _ \<Rightarrow> access_message)))
                @ [Throw title
                     (JStr (case map_of body ''message'' of
                              Some (JStr s) \<Rightarrow> s | _ \<Rightarrow> access_message))],
              Inl (BankingError
                     (JStr (case map_of body ''message'' of
                              Some (JStr s) \<Rightarrow> s | _ \<Rightarrow> access_message))))
       \<and> (\<forall>a. account self = Some a \<and> a \<noteq> [] \<longrightarrow>
              fst (set_in_account self
                     (JStr (case map_of body ''message'' of
                              Some (JStr s) \<Rightarrow> s | _ \<Rightarrow> access_message)))
                = [SetValue ''Bank Account'' a ''error_message''
                     (JStr (case map_of body ''message'' of
                              Some (JStr s) \<Rightarrow> s | _ \<Rightarrow> access_message)),
                   Commit])"
proof -
  have "handle_error rt self = handle_authorization_error self r"
    using assms(1,2) by (simp add: handle_error_http)
  then show ?thesis
    using assms(2,3)
    by (simp add: handle_authorization_error_eq set_in_account_supplied
          split: option.split jvalue.split)
qed

theorem forbidden_message_witness:
  "handle_error \<lparr>handled = None, py_str = (\<lambda>v. ''None'')\<rparr>
     \<lparr>exception = HTTPError (Some \<lparr>status_code = 403,
                              headers = [''Content-Type'' \<mapsto> ''application/json''],
                              content = ''(raw body)'',
                              json = Some (JObj [(''message'', JStr ''Custom text'')])\<rparr>),
      account = Some ''ACC-0001''\<rparr>
     = ([LogError ''Banking Error'' (Content ''(raw body)''),
         SetValue ''Bank Account'' ''ACC-0001'' ''error_message'' (JStr ''Custom text''),
         Commit,
         Throw ''Banking Error'' (JStr ''Custom text'')],
        Inl (BankingError (JStr ''Custom text'')))
   \<and> handle_error \<lparr>handled = None, py_str = (\<lambda>v. ''None'')\<rparr>
     \<lparr>exception = HTTPError (Some \<lparr>status_code = 403,
                              headers = [''Content-Type'' \<mapsto> ''application/json''],
                              content = ''(raw body)'',
                              json = Some (JObj [(''message'', JObj [(''foo'', JInt 1)])])\<rparr>),
      account = None\<rparr>
     = ([LogError ''Banking Error'' (Content ''(raw body)''),
         Throw ''Banking Error'' (JStr ''Authorization error due to invalid access.'')],
        Inl (BankingError (JStr ''Authorization error due to invalid access.'')))"
  using forbidden_message
    [of "\<lparr>exception = HTTPError (Some \<lparr>status_code = 403,
                              headers = [''Content-Type'' \<mapsto> ''application/json''],
                              content = ''(raw body)'',
                              json = Some (JObj [(''message'', JStr ''Custom text'')])\<rparr>),
      account = Some ''ACC-0001''\<rparr>"
       "\<lparr>status_code = 403,
                              headers = [''Content-Type'' \<mapsto> ''application/json''],
                              content = ''(raw body)'',
                              json = Some (JObj [(''message'', JStr ''Custom text'')])\<rparr>"
       "[(''message'', JStr ''Custom text'')]"
       "\<lparr>handled = None, py_str = (\<lambda>v. ''None'')\<rparr>"]
    forbidden_message
    [of "\<lparr>exception = HTTPError (Some \<lparr>status_code = 403,
                              headers = [''Content-Type'' \<mapsto> ''application/json''],
                              content = ''(raw body)'',
                              json = Some (JObj [(''message'', JObj [(''foo'', JInt 1)])])\<rparr>),
      account = None\<rparr>"
       "\<lparr>status_code = 403,
                              headers = [''Content-Type'' \<mapsto> ''application/json''],
                              content = ''(raw body)'',
                              json = Some (JObj [(''message'', JObj [(''foo'', JInt 1)])])\<rparr>"
       "[(''message'', JObj [(''foo'', JInt 1)])]"
       "\<lparr>handled = None, py_str = (\<lambda>v. ''None'')\<rparr>"]
  by (simp add: title_def access_message_def set_in_account_supplied set_in_account_absent)

text \<open>
  Claim C5 as the specification words it covers every failure with status 403. The step
  for 403 comes before the test of the content type and reads \<open>response.json()\<close>: for a
  403 whose body is not JSON, such as a gateway's HTML page, that call raises after the log
  entry, and no Domain Error is raised.
\<close>

theorem forbidden_html_body_counterexample:
  "handle_error \<lparr>handled = None, py_str = (\<lambda>v. ''None'')\<rparr>
     \<lparr>exception = HTTPError (Some \<lparr>status_code = 403,
                              headers = [''Content-Type'' \<mapsto> ''text/html''],
                              content = ''<html>403 Forbidden</html>'',
                              json = None\<rparr>),
      account = Some ''ACC-0001''\<rparr>
     = ([LogError ''Banking Error'' (Content ''<html>403 Forbidden</html>'')],
        Inl JSONDecodeError)"
  by (simp add: handle_error_http handle_authorization_error_eq title_def)

subsection \<open>C6: an error of the server's own framework\<close>

text \<open>
  Claim C6, as amended. For an HTTP failure with a status other than 401 and 403, a JSON
  content type and a body that is an object with a falsy \<open>message\<close> (or none) and an
  \<open>exc_type\<close> key, \<open>handle_error\<close> logs the raw body and raises a Domain Error whose message is
  the body's \<open>exception\<close> field if that field is present and truthy, and the fixed text
  about the server otherwise; the message is written to the account first.
\<close>

theorem server_error_message:
  assumes "exception self = HTTPError (Some r)" and "status_code r \<noteq> 401"
    and "status_code r \<noteq> 403"
    and "headers r ''Content-Type'' = Some content_type"
    and "substring ''application/json'' content_type"
    and "json r = Some (JObj body)"
    and "\<not> py_truthy (case map_of body ''message'' of Some v \<Rightarrow> v | None \<Rightarrow> JObj [])"
    and "''exc_type'' \<in> fst ` set body"
  shows "handle_error rt self
           = (LogError title (Content (content r))
                # fst (set_in_account self
                        (case map_of body ''exception'' of
                           Some exc \<Rightarrow> if py_truthy exc then exc else JStr server_message
                         | None \<Rightarrow> JStr server_message))
                @ [Throw title
                     (case map_of body ''exception'' of
                        Some exc \<Rightarrow> if py_truthy exc then exc else JStr server_message
                      | None \<Rightarrow> JStr server_message)],
              Inl (BankingError
                     (case map_of body ''exception'' of
                        Some exc \<Rightarrow> if py_truthy exc then exc else JStr server_message
                      | None \<Rightarrow> JStr server_message)))"
  using assms
  by (simp add: handle_error_http handle_frappe_server_error_eq split: option.split)

theorem server_error_message_witness:
  "handle_error \<lparr>handled = None, py_str = (\<lambda>v. ''None'')\<rparr>
     \<lparr>exception = HTTPError (Some \<lparr>status_code = 500,
                              headers = [''Content-Type'' \<mapsto> ''application/json''],
                              content = ''(raw body)'',
                              json = Some (JObj [(''message'', JNull),
                                                 (''exc_type'', JStr ''SomeError''),
                                                 (''exception'', JStr ''boom'')])\<rparr>),
      account = None\<rparr>
     = ([LogError ''Banking Error'' (Content ''(raw body)''),
         Throw ''Banking Error'' (JStr ''boom'')],
        Inl (BankingError (JStr ''boom'')))"
  using server_error_message
    [of "\<lparr>exception = HTTPError (Some \<lparr>status_code = 500,
                              headers = [''Content-Type'' \<mapsto> ''application/json''],
                              content = ''(raw body)'',
                              json = Some (JObj [(''message'', JNull),
                                                 (''exc_type'', JStr ''SomeError''),
                                                 (''exception'', JStr ''boom'')])\<rparr>),
      account = None\<rparr>"
        "\<lparr>status_code = 500,
                              headers = [''Content-Type'' \<mapsto> ''application/json''],
                              content = ''(raw body)'',
                              json = Some (JObj [(''message'', JNull),
                                                 (''exc_type'', JStr ''SomeError''),
                                                 (''exception'', JStr ''boom'')])\<rparr>"
        "''application/json''"
        "[(''message'', JNull), (''exc_type'', JStr ''SomeError''), (''exception'', JStr ''boom'')]"
        "\<lparr>handled = None, py_str = (\<lambda>v. ''None'')\<rparr>"]
  by (simp add: title_def set_in_account_absent)

text \<open>
  Claim C6 as the specification words it takes the \<open>exception\<close> field whenever it is
  present. With an \<open>exception\<close> field that is the empty string the raised message is the
  fixed text, not the field.
\<close>

theorem empty_exception_field_counterexample:
  "map_of [(''message'', JNull), (''exc_type'', JStr ''SomeError''), (''exception'', JStr '''')]
      ''exception'' = Some (JStr '''')
   \<and> handle_error \<lparr>handled = None, py_str = (\<lambda>v. ''None'')\<rparr>
     \<lparr>exception = HTTPError (Some \<lparr>status_code = 500,
                              headers = [''Content-Type'' \<mapsto> ''application/json''],
                              content = ''(raw body)'',
                              json = Some (JObj [(''message'', JNull),
                                                 (''exc_type'', JStr ''SomeError''),
                                                 (''exception'', JStr '''')])\<rparr>),
      account = None\<rparr>
     = ([LogError ''Banking Error'' (Content ''(raw body)''),
         Throw ''Banking Error'' (JStr ''The server has errored. Please retry in some time.'')],
        Inl (BankingError (JStr ''The server has errored. Please retry in some time.'')))"
  by (simp add: handle_error_http handle_frappe_server_error_eq set_in_account_absent
        title_def server_message_def)

subsection \<open>C7: a list of errors\<close>




subsection \<open>C8: the message-augmentation rule\<close>

text \<open>
  Claim C8, as amended. For an error object with a \<open>message\<close> and a \<open>code\<close> field, \<open>get_msg\<close> returns
  the message unchanged when the code is not \<open>CONSENT.RESOURCE_NOT_GRANTED\<close>; when the code
  is that one and the message is a string, it returns the message followed by a space and
  the fixed instruction, so that the result contains both the message and the instruction.
\<close>

theorem get_msg_augments:
  assumes "map_of error ''message'' = Some v" and "map_of error ''code'' = Some code"
  shows "(code \<noteq> JStr consent_code \<longrightarrow> get_msg (JObj error) = Inr v)
       \<and> (code = JStr consent_code \<longrightarrow>
            (\<forall>m. v = JStr m \<longrightarrow>
               get_msg (JObj error) = Inr (JStr (m @ '' '' @ instruction))
               \<and> substring m (m @ '' '' @ instruction)
               \<and> substring instruction (m @ '' '' @ instruction)))"
proof -
  have "substring m (m @ '' '' @ instruction)" for m
    by (rule substring_here)
  moreover have "substring instruction (m @ '' '' @ instruction)" for m
    using substring_append [of instruction "m @ '' ''" "[]"] by simp
  ultimately show ?thesis
    using assms by (simp add: get_msg_object)
qed

theorem get_msg_augments_witness:
  "map_of [(''message'', JStr ''consent missing''), (''code'', JStr ''CONSENT.RESOURCE_NOT_GRANTED'')]
       ''message'' = Some (JStr ''consent missing'')
   \<and> map_of [(''message'', JStr ''consent missing''), (''code'', JStr ''CONSENT.RESOURCE_NOT_GRANTED'')]
       ''code'' = Some (JStr consent_code)
   \<and> get_msg (JObj [(''message'', JStr ''consent missing''),
                     (''code'', JStr ''CONSENT.RESOURCE_NOT_GRANTED'')])
       = Inr (JStr ''consent missing Please go to Banking Settings and click on <strong>Link Bank and Accounts</strong>.'')
   \<and> substring ''consent missing'' (''consent missing'' @ '' '' @ instruction)
   \<and> substring instruction (''consent missing'' @ '' '' @ instruction)
   \<and> map_of [(''message'', JStr ''not found''), (''code'', JStr ''RESOURCE.NOT_FOUND'')] ''code''
       \<noteq> Some (JStr consent_code)
   \<and> get_msg (JObj [(''message'', JStr ''not found''), (''code'', JStr ''RESOURCE.NOT_FOUND'')])
       = Inr (JStr ''not found'')"
  using get_msg_augments [of "[(''message'', JStr ''consent missing''),
                                (''code'', JStr ''CONSENT.RESOURCE_NOT_GRANTED'')]"
                              "JStr ''consent missing''" "JStr ''CONSENT.RESOURCE_NOT_GRANTED''"]
    get_msg_augments [of "[(''message'', JStr ''not found''), (''code'', JStr ''RESOURCE.NOT_FOUND'')]"
                         "JStr ''not found''" "JStr ''RESOURCE.NOT_FOUND''"]
  by (simp add: consent_code_def instruction_def)

text \<open>
  Claim C8 as the specification words it covers every error object with the two fields.
  With the code \<open>CONSENT.RESOURCE_NOT_GRANTED\<close> and a \<open>message\<close> that is null, \<open>msg += " " + info\<close>
  adds a string to \<open>None\<close> and raises \<open>TypeError\<close>: nothing is returned.
\<close>

theorem null_message_consent_counterexample:
  "map_of [(''message'', JNull), (''code'', JStr ''CONSENT.RESOURCE_NOT_GRANTED'')] ''message''
     = Some JNull
   \<and> get_msg (JObj [(''message'', JNull), (''code'', JStr ''CONSENT.RESOURCE_NOT_GRANTED'')])
     = Inl TypeError"
  by (simp add: get_msg_object consent_code_def)

subsection \<open>C9: where \<open>error_data\<close> comes from\<close>

text \<open>
  Claim C9, as amended. For an envelope \<open>content\<close> that is an object, \<open>error_data\<close> is the
  value of its \<open>error\<close> field if that field is present and truthy; otherwise it is the value
  of its \<open>data\<close> field if present, and the empty object if not. This \<open>error_data\<close> is what
  \<open>handle_admin_error\<close> logs first and what the rest of the step works on.
\<close>

theorem error_data_of_object:
  "let error_data =
         (case map_of c ''error'' of
            Some err \<Rightarrow>
              if py_truthy err then err
              else (case map_of c ''data'' of Some d \<Rightarrow> d | None \<Rightarrow> JObj [])
          | None \<Rightarrow> (case map_of c ''data'' of Some d \<Rightarrow> d | None \<Rightarrow> JObj []))
   in error_data_of (JObj c) = Inr error_data
      \<and> handle_admin_error rt self (JObj c)
          = (LogError title (Dumps error_data) # fst (raise_admin_error rt self error_data),
             snd (raise_admin_error rt self error_data))"
proof -
  have "error_data_of (JObj c) =
          Inr (case map_of c ''error'' of
                 Some err \<Rightarrow>
                   if py_truthy err then err
                   else (case map_of c ''data'' of Some d \<Rightarrow> d | None \<Rightarrow> JObj [])
               | None \<Rightarrow> (case map_of c ''data'' of Some d \<Rightarrow> d | None \<Rightarrow> JObj []))"
    by (simp add: error_data_of_def split: option.split)
  then show ?thesis
    by (simp add: handle_admin_error_eq Let_def)
qed

text \<open>
  Claim C9 as the specification words it uses the \<open>error\<close> field whenever the key is
  present, even holding an empty object. With \<open>error\<close> an empty object the \<open>data\<close> field is
  consulted: its value is logged and its message is raised.
\<close>

theorem empty_error_object_counterexample:
  "map_of [(''error'', JObj []), (''data'', JObj [(''message'', JStr ''Account locked'')])] ''error''
     = Some (JObj [])
   \<and> error_data_of (JObj [(''error'', JObj []),
                           (''data'', JObj [(''message'', JStr ''Account locked'')])])
     = Inr (JObj [(''message'', JStr ''Account locked'')])
   \<and> handle_admin_error \<lparr>handled = None, py_str = (\<lambda>v. ''None'')\<rparr>
        \<lparr>exception = OtherException ''unused'', account = None\<rparr>
        (JObj [(''error'', JObj []), (''data'', JObj [(''message'', JStr ''Account locked'')])])
     = ([LogError ''Banking Error'' (Dumps (JObj [(''message'', JStr ''Account locked'')])),
         Throw ''Banking Error'' (JStr ''Account locked'')],
        Inl (BankingError (JStr ''Account locked'')))"
  by (simp add: handle_admin_error_eq raise_admin_error_eq error_data_of_def get_msg_object
        set_in_account_absent title_def consent_code_def)

subsection \<open>C10: no Content-Type header\<close>

text \<open>
  Claim C10. For an HTTP failure with a status other than 401 and 403 whose headers have
  no \<open>Content-Type\<close>, \<open>handle_error\<close> does what \<open>handle_txt_html_error\<close> does for a response
  that is not JSON, whatever the body is: it logs the raw body, writes the fixed retry
  message to the account if one was supplied, and raises a Domain Error with that message.
\<close>

theorem missing_content_type_is_not_json:
  assumes "exception self = HTTPError (Some r)" and "status_code r \<noteq> 401"
    and "status_code r \<noteq> 403" and "headers r ''Content-Type'' = None"
  shows "handle_error rt self = handle_txt_html_error self r
       \<and> handle_error rt self
           = (LogError title (Content (content r))
                # fst (set_in_account self (JStr retry_message))
                @ [Throw title (JStr retry_message)],
              Inl (BankingError (JStr retry_message)))
       \<and> (\<forall>a. account self = Some a \<and> a \<noteq> [] \<longrightarrow>
              fst (handle_error rt self)
                = [LogError title (Content (content r)),
                   SetValue ''Bank Account'' a ''error_message'' (JStr retry_message), Commit,
                   Throw title (JStr retry_message)])"
  using assms
  by (simp add: handle_error_http handle_txt_html_error_eq set_in_account_supplied)

theorem missing_content_type_is_not_json_witness:
  "status_code \<lparr>status_code = 502, headers = Map.empty, content = ''(raw body)'',
                 json = Some (JObj [(''message'', JObj [])])\<rparr> \<noteq> 401
   \<and> status_code \<lparr>status_code = 502, headers = Map.empty, content = ''(raw body)'',
                   json = Some (JObj [(''message'', JObj [])])\<rparr> \<noteq> 403
   \<and> headers \<lparr>status_code = 502, headers = Map.empty, content = ''(raw body)'',
               json = Some (JObj [(''message'', JObj [])])\<rparr> ''Content-Type'' = None
   \<and> handle_error \<lparr>handled = None, py_str = (\<lambda>v. ''None'')\<rparr>
        \<lparr>exception = HTTPError (Some \<lparr>status_code = 502, headers = Map.empty,
                                 content = ''(raw body)'',
                                 json = Some (JObj [(''message'', JObj [])])\<rparr>),
         account = Some ''ACC-0001''\<rparr>
     = ([LogError ''Banking Error'' (Content ''(raw body)''),
         SetValue ''Bank Account'' ''ACC-0001'' ''error_message''
           (JStr ''Something went wrong. Please retry in a while.''),
         Commit,
         Throw ''Banking Error'' (JStr ''Something went wrong. Please retry in a while.'')],
        Inl (BankingError (JStr ''Something went wrong. Please retry in a while.'')))"
  using missing_content_type_is_not_json
    [of "\<lparr>exception = HTTPError (Some \<lparr>status_code = 502, headers = Map.empty,
                                 content = ''(raw body)'',
                                 json = Some (JObj [(''message'', JObj [])])\<rparr>),
         account = Some ''ACC-0001''\<rparr>"
        "\<lparr>status_code = 502, headers = Map.empty, content = ''(raw body)'',
          json = Some (JObj [(''message'', JObj [])])\<rparr>"
        "\<lparr>handled = None, py_str = (\<lambda>v. ''None'')\<rparr>"]
  by (simp add: retry_message_def title_def set_in_account_supplied handle_txt_html_error_eq)

end
